theory Spec2Isabelle
  imports Main "HOL-Library.Word"
begin

section \<open>The program \<open>examples/c_segfault.c\<close>\<close>

text \<open>
  The translation unit has one struct and three functions. The struct holds a pointer to
  another struct of the same type, so the model keeps an explicit store: a pointer is
  either \<open>NULL\<close> or the address of a cell, and every \<open>->\<close> of the source is a checked
  access that either yields the cell or stops the run with a fault. Two things of the C
  library decide what the program does and are part of the state: whether \<open>malloc\<close> has
  memory to give, and the buffer of the stream \<open>stdout\<close>, which the program never
  flushes and which is lost when a fault kills the process.
\<close>

subsection \<open>Data\<close>

type_synonym c_int = "32 word"

type_synonym addr = nat

text \<open>A \<open>struct User *\<close>: the null pointer, or the address of a cell of the heap. Cells are
  numbered from 0, and \<open>Ptr 0\<close> is a cell, not the null pointer.\<close>

datatype ptr = NULL | Ptr addr

text \<open>
  \<open>struct User { int id; char *name; struct User *manager; }\<close>. The field \<open>id\<close> is
  written \<open>id_field\<close>, since \<open>id\<close> is HOL's identity function. A \<open>char *\<close> that points to
  a string literal is the text it points to.
\<close>

record User =
  id_field :: c_int
  name :: string
  manager :: ptr

text \<open>How a run can end abnormally: an access through \<open>NULL\<close>, or through an address
  that holds no object.\<close>

datatype fault = Null_dereference | Invalid_access

text \<open>Function entries, recorded in a ghost field of the state so that "is called" can be
  stated. No function of the program reads it.\<close>

datatype event = Enter_find_user c_int | Enter_print_manager_name ptr

text \<open>How the stream \<open>stdout\<close> is buffered. The program does not choose: at the start
  of a process the stream is fully buffered when it is a pipe or a file, and line buffered
  or unbuffered when it is a terminal.\<close>

datatype buffering = Unbuffered | Line_buffered | Fully_buffered

text \<open>
  The state of the process.
  \<^item> \<open>heap\<close>: the objects on the heap; \<open>brk\<close>: the next address \<open>malloc\<close> hands out;
    \<open>avail\<close>: how many more objects \<open>malloc\<close> can hand out; \<open>uninit\<close>: the indeterminate
    contents a fresh allocation holds at each address.
  \<^item> \<open>mode\<close> and \<open>capacity\<close>: the buffering of \<open>stdout\<close> and the size of its buffer;
    \<open>buffer\<close>: the characters \<open>printf\<close> has produced that are still in the buffer;
    \<open>stdout\<close>: the characters that have left the process on standard output.
  \<^item> \<open>trace\<close>: the ghost trace.
\<close>

record world =
  heap :: "addr \<Rightarrow> User option"
  brk :: addr
  avail :: nat
  uninit :: "addr \<Rightarrow> User"
  mode :: buffering
  capacity :: nat
  buffer :: string
  stdout :: string
  trace :: "event list"

subsection \<open>Sequencing with faults\<close>

text \<open>A statement takes the state to a result and a state. \<open>Inl\<close> is a fault: the
  statements after it do not run.\<close>

type_synonym 'a exec = "world \<Rightarrow> (fault + 'a) \<times> world"

definition ret :: "'a \<Rightarrow> 'a exec" where
  "ret x w = (Inr x, w)"

definition bind :: "'a exec \<Rightarrow> ('a \<Rightarrow> 'b exec) \<Rightarrow> 'b exec" where
  "bind m k w = (case m w of (Inl e, w') \<Rightarrow> (Inl e, w') | (Inr x, w') \<Rightarrow> k x w')"

definition enter :: "event \<Rightarrow> unit exec" where
  "enter ev w = (Inr (), w\<lparr>trace := trace w @ [ev]\<rparr>)"

subsection \<open>Memory\<close>

text \<open>Reading through a pointer (\<open>p->f\<close> as an rvalue reads a field of the cell).\<close>

definition deref :: "ptr \<Rightarrow> User exec" where
  "deref p w =
     (case p of
        NULL \<Rightarrow> (Inl Null_dereference, w)
      | Ptr a \<Rightarrow>
          (case heap w a of
             None \<Rightarrow> (Inl Invalid_access, w)
           | Some u \<Rightarrow> (Inr u, w)))"

text \<open>Writing through a pointer (\<open>p->f = v\<close> updates one field of the cell).\<close>

definition assign :: "ptr \<Rightarrow> (User \<Rightarrow> User) \<Rightarrow> unit exec" where
  "assign p upd w =
     (case p of
        NULL \<Rightarrow> (Inl Null_dereference, w)
      | Ptr a \<Rightarrow>
          (case heap w a of
             None \<Rightarrow> (Inl Invalid_access, w)
           | Some u \<Rightarrow> (Inr (), w\<lparr>heap := (heap w)(a \<mapsto> upd u)\<rparr>)))"

text \<open>
  \<open>malloc(sizeof(struct User))\<close>. When no memory is left the result is \<open>NULL\<close> and the
  state is unchanged. Otherwise the result is the next address, and the new cell holds
  whatever \<open>uninit\<close> says is there.
\<close>

definition malloc :: "ptr exec" where
  "malloc w =
     (if avail w = 0 then (Inr NULL, w)
      else
        (Inr (Ptr (brk w)),
         w\<lparr>heap := (heap w)(brk w \<mapsto> uninit w (brk w)),
           brk := Suc (brk w),
           avail := avail w - 1\<rparr>))"

subsection \<open>Output\<close>

definition newline :: char where
  "newline = CHR 0x0A"

text \<open>The formats of the program have one \<open>%s\<close> conversion each: it is replaced by the
  argument, every other character is copied.\<close>

fun format :: "string \<Rightarrow> string \<Rightarrow> string" where
  "format (c # d # cs) s =
     (if c = CHR ''%'' \<and> d = CHR ''s'' then s @ format cs s else c # format (d # cs) s)"
| "format cs s = cs"

text \<open>
  How many of the pending characters leave the process when \<open>out\<close> is added to the
  buffer. An unbuffered stream passes everything on. A line buffered stream passes on what
  is pending up to its last newline when \<open>out\<close> has a newline. A buffer that is filled is
  passed on as a block. Otherwise the characters stay in the buffer.
\<close>

definition ready :: "world \<Rightarrow> string \<Rightarrow> nat" where
  "ready w out =
     (let pend = buffer w @ out in
      case mode w of
        Unbuffered \<Rightarrow> length pend
      | Line_buffered \<Rightarrow>
          if newline \<in> set out
          then length pend - length (takeWhile (\<lambda>c. c \<noteq> newline) (rev pend))
          else if capacity w \<le> length pend then length pend else 0
      | Fully_buffered \<Rightarrow>
          if capacity w \<le> length pend then length pend else 0)"

definition emit :: "string \<Rightarrow> world \<Rightarrow> world" where
  "emit out w =
     (let pend = buffer w @ out; n = ready w out
      in w\<lparr>stdout := stdout w @ take n pend, buffer := drop n pend\<rparr>)"

definition printf :: "string \<Rightarrow> string \<Rightarrow> unit exec" where
  "printf fmt s w = (Inr (), emit (format fmt s) w)"

subsection \<open>The three functions\<close>

text \<open>\<open>struct User* find_user(int id)\<close>, lines 12 to 22. The result of \<open>malloc\<close> is
  used without a test, so the three stores go through whatever pointer it returned.\<close>

definition find_user :: "c_int \<Rightarrow> ptr exec" where
  "find_user i =
     bind (enter (Enter_find_user i)) (\<lambda>_.
     if i \<noteq> 1 then ret NULL
     else
       bind malloc (\<lambda>user.
       bind (assign user (\<lambda>u. u\<lparr>id_field := 1\<rparr>)) (\<lambda>_.
       bind (assign user (\<lambda>u. u\<lparr>name := ''Alice''\<rparr>)) (\<lambda>_.
       bind (assign user (\<lambda>u. u\<lparr>manager := NULL\<rparr>)) (\<lambda>_.
       ret user)))))"

text \<open>\<open>void print_manager_name(struct User *user)\<close>, lines 24 to 27. The argument
  \<open>user->manager->name\<close> is evaluated before \<open>printf\<close> is called: two reads through
  pointers, then the output.\<close>

definition print_manager_name :: "ptr \<Rightarrow> unit exec" where
  "print_manager_name user =
     bind (enter (Enter_print_manager_name user)) (\<lambda>_.
     bind (deref user) (\<lambda>u.
     bind (deref (manager u)) (\<lambda>m.
     printf (''Manager: %s'' @ [newline]) (name m))))"

text \<open>The body of \<open>main\<close> after the lookup, lines 32 to 37, for a value of the local
  variable \<open>user\<close>. The result is the exit status.\<close>

definition main_body :: "ptr \<Rightarrow> c_int exec" where
  "main_body user =
     bind (if user \<noteq> NULL then
             bind (deref user) (\<lambda>u.
             bind (printf (''Found user: %s'' @ [newline]) (name u)) (\<lambda>_.
             print_manager_name user))
           else ret ()) (\<lambda>_.
     ret 0)"

text \<open>\<open>main\<close> with the identifier it looks up as a parameter; the source fixes it to 1.\<close>

definition main_at :: "c_int \<Rightarrow> c_int exec" where
  "main_at i = bind (find_user i) main_body"

definition main :: "c_int exec" where
  "main = main_at 1"

subsection \<open>The process\<close>

text \<open>
  How a run of the entry point ends, and what standard output has received by then. A
  return from \<open>main\<close> is an exit with that status, and an exit flushes the buffer. A fault
  kills the process, and what is still in the buffer is lost.
\<close>

definition terminate :: "(fault + c_int) \<times> world \<Rightarrow> (fault + c_int) \<times> string" where
  "terminate r =
     (case r of
        (Inl f, w) \<Rightarrow> (Inl f, stdout w)
      | (Inr c, w) \<Rightarrow> (Inr c, stdout w @ buffer w))"

definition run_main :: "world \<Rightarrow> (fault + c_int) \<times> string" where
  "run_main w = terminate (main w)"

text \<open>
  The state at the start of a process: nothing allocated, nothing printed. What the
  process does not choose is a parameter: the buffering of standard output and the size
  of its buffer, how many objects the memory has room for, and the contents of memory.
\<close>

definition boot :: "buffering \<Rightarrow> nat \<Rightarrow> nat \<Rightarrow> (addr \<Rightarrow> User) \<Rightarrow> world" where
  "boot b c m u =
     \<lparr>heap = (\<lambda>_. None), brk = 0, avail = m, uninit = u,
      mode = b, capacity = c, buffer = [], stdout = [], trace = []\<rparr>"

subsection \<open>Observations\<close>

text \<open>Everything \<open>printf\<close> has produced so far: what has left the process, then what is
  still in the buffer.\<close>

definition printed :: "world \<Rightarrow> string" where
  "printed w = stdout w @ buffer w"

text \<open>What the statements between two states wrote to the stream.\<close>

definition written :: "world \<Rightarrow> world \<Rightarrow> string" where
  "written w w' = drop (length (printed w)) (printed w')"

text \<open>The lines of a text, without their terminators.\<close>

fun lines_of :: "string \<Rightarrow> string list" where
  "lines_of [] = []"
| "lines_of (c # cs) =
     (if c = newline then [] # lines_of cs
      else (case lines_of cs of [] \<Rightarrow> [[c]] | l # ls \<Rightarrow> (c # l) # ls))"

text \<open>Whether a result of the lookup is a pointer to an object of the heap.\<close>

definition returns_record :: "(fault + ptr) \<times> world \<Rightarrow> bool" where
  "returns_record r =
     (case r of
        (Inr (Ptr a), w') \<Rightarrow> heap w' a \<noteq> None
      | _ \<Rightarrow> False)"

text \<open>How often a trace enters the reporting function.\<close>

fun is_report :: "event \<Rightarrow> bool" where
  "is_report (Enter_print_manager_name p) = True"
| "is_report (Enter_find_user i) = False"

definition reporting_calls :: "event list \<Rightarrow> nat" where
  "reporting_calls tr = length (filter is_report tr)"

text \<open>Start states for concrete runs. Memory holds contents that are visibly not what
  \<open>find_user\<close> stores. \<open>start\<close> is a process on a terminal, \<open>piped\<close> a process whose
  standard output is a pipe, \<open>exhausted\<close> a process with no memory left.\<close>

definition junk :: User where
  "junk = \<lparr>id_field = 7, name = ''junk'', manager = Ptr 5\<rparr>"

definition start :: world where
  "start = boot Line_buffered 1024 16 (\<lambda>_. junk)"

definition piped :: world where
  "piped = boot Fully_buffered 4096 16 (\<lambda>_. junk)"

definition exhausted :: world where
  "exhausted = boot Line_buffered 1024 0 (\<lambda>_. junk)"

text \<open>A state with two objects, the first managed by the second.\<close>

definition office :: world where
  "office =
     start\<lparr>heap := (\<lambda>a. if a = 0 then Some \<lparr>id_field = 1, name = ''Alice'', manager = Ptr 1\<rparr>
                        else if a = 1 then Some \<lparr>id_field = 2, name = ''Bob'', manager = NULL\<rparr>
                        else None),
           brk := 2\<rparr>"

section \<open>Basic facts\<close>

lemmas exec_defs = ret_def bind_def enter_def deref_def assign_def malloc_def printf_def

lemma User_overwritten:
  "(u::User)\<lparr>id_field := i, name := n, manager := m\<rparr> = \<lparr>id_field = i, name = n, manager = m\<rparr>"
  by (cases u) simp

subsection \<open>The stream\<close>

lemma emit_fields [simp]:
  "heap (emit out w) = heap w"
  "brk (emit out w) = brk w"
  "avail (emit out w) = avail w"
  "uninit (emit out w) = uninit w"
  "mode (emit out w) = mode w"
  "capacity (emit out w) = capacity w"
  "trace (emit out w) = trace w"
  by (simp_all add: emit_def Let_def)

lemma stdout_emit: "stdout (emit out w) = stdout w @ take (ready w out) (buffer w @ out)"
  by (simp add: emit_def Let_def)

lemma printed_emit: "printed (emit out w) = printed w @ out"
proof -
  have "take (ready w out) (buffer w @ out) @ drop (ready w out) (buffer w @ out) = buffer w @ out"
    by (rule append_take_drop_id)
  then show ?thesis
    by (simp add: emit_def printed_def Let_def del: take_append drop_append)
qed

lemma printed_trace [simp]: "printed (w\<lparr>trace := t\<rparr>) = printed w"
  by (simp add: printed_def)

lemma ready_newline_last:
  assumes "mode w \<noteq> Fully_buffered" and "out \<noteq> []" and "last out = newline"
  shows "ready w out = length (buffer w) + length out"
proof (cases "mode w")
  case Unbuffered
  then show ?thesis by (simp add: ready_def)
next
  case Line_buffered
  from assms(2,3) have mem: "newline \<in> set out"
    using last_in_set by metis
  from assms(2,3) obtain ys where "rev out = newline # ys"
    by (cases "rev out") (auto simp: last_rev [symmetric] hd_rev)
  then have "takeWhile (\<lambda>c. c \<noteq> newline) (rev (buffer w @ out)) = []"
    by simp
  with Line_buffered mem show ?thesis by (simp add: ready_def)
next
  case Fully_buffered
  with assms(1) show ?thesis by simp
qed

lemma ready_full:
  assumes "mode w = Fully_buffered"
  shows "ready w out =
           (if capacity w \<le> length (buffer w) + length out
            then length (buffer w) + length out else 0)"
  using assms by (simp add: ready_def)

subsection \<open>The lookup\<close>

lemma find_user_one:
  assumes "0 < avail w"
  shows "find_user 1 w =
     (Inr (Ptr (brk w)),
      w\<lparr>heap := (heap w)(brk w \<mapsto> \<lparr>id_field = 1, name = ''Alice'', manager = NULL\<rparr>),
        brk := Suc (brk w),
        avail := avail w - 1,
        trace := trace w @ [Enter_find_user 1]\<rparr>)"
  using assms by (simp add: find_user_def exec_defs User_overwritten)

lemma find_user_oom:
  assumes "avail w = 0"
  shows "find_user 1 w = (Inl Null_dereference, w\<lparr>trace := trace w @ [Enter_find_user 1]\<rparr>)"
  using assms by (simp add: find_user_def exec_defs)

lemma find_user_other:
  "i \<noteq> 1 \<Longrightarrow> find_user i w = (Inr NULL, w\<lparr>trace := trace w @ [Enter_find_user i]\<rparr>)"
  by (simp add: find_user_def exec_defs)

subsection \<open>The report and the entry point\<close>

lemma print_manager_name_null:
  assumes "heap w a = Some u" and "manager u = NULL"
  shows "print_manager_name (Ptr a) w =
           (Inl Null_dereference, w\<lparr>trace := trace w @ [Enter_print_manager_name (Ptr a)]\<rparr>)"
  using assms by (simp add: print_manager_name_def exec_defs)

lemma print_manager_name_some:
  assumes "heap w a = Some u" and "manager u = Ptr b" and "heap w b = Some m"
  shows "print_manager_name (Ptr a) w =
           (Inr (),
            emit (''Manager: '' @ name m @ [newline])
              (w\<lparr>trace := trace w @ [Enter_print_manager_name (Ptr a)]\<rparr>))"
  using assms by (simp add: print_manager_name_def exec_defs)

lemma main_body_null: "main_body NULL w = (Inr 0, w)"
  by (simp add: main_body_def ret_def bind_def)

lemma main_body_found:
  assumes "heap w a = Some u" and "manager u = NULL"
  shows "main_body (Ptr a) w =
           (Inl Null_dereference,
            (emit (''Found user: '' @ name u @ [newline]) w)
              \<lparr>trace := trace w @ [Enter_print_manager_name (Ptr a)]\<rparr>)"
proof -
  let ?w1 = "emit (''Found user: '' @ name u @ [newline]) w"
  have "heap ?w1 a = Some u" using assms(1) by simp
  then have "print_manager_name (Ptr a) ?w1 =
      (Inl Null_dereference, ?w1\<lparr>trace := trace ?w1 @ [Enter_print_manager_name (Ptr a)]\<rparr>)"
    using assms(2) by (rule print_manager_name_null)
  then show ?thesis
    using assms(1)
    by (simp add: main_body_def ret_def bind_def deref_def printf_def)
qed

lemma main_at_one:
  assumes "0 < avail w"
  shows "main_at 1 w =
     (Inl Null_dereference,
      (emit (''Found user: Alice'' @ [newline])
         (w\<lparr>heap := (heap w)(brk w \<mapsto> \<lparr>id_field = 1, name = ''Alice'', manager = NULL\<rparr>),
            brk := Suc (brk w),
            avail := avail w - 1,
            trace := trace w @ [Enter_find_user 1]\<rparr>))
        \<lparr>trace := trace w @ [Enter_find_user 1, Enter_print_manager_name (Ptr (brk w))]\<rparr>)"
proof -
  let ?alice = "\<lparr>id_field = 1, name = ''Alice'', manager = NULL\<rparr>"
  let ?w1 = "w\<lparr>heap := (heap w)(brk w \<mapsto> ?alice), brk := Suc (brk w),
               avail := avail w - 1, trace := trace w @ [Enter_find_user 1]\<rparr>"
  have "main_body (Ptr (brk w)) ?w1 =
      (Inl Null_dereference,
       (emit (''Found user: '' @ name ?alice @ [newline]) ?w1)
         \<lparr>trace := trace ?w1 @ [Enter_print_manager_name (Ptr (brk w))]\<rparr>)"
    by (rule main_body_found) simp_all
  then show ?thesis
    by (simp add: main_at_def bind_def find_user_one [OF assms])
qed

lemma main_at_oom:
  assumes "avail w = 0"
  shows "main_at 1 w = (Inl Null_dereference, w\<lparr>trace := trace w @ [Enter_find_user 1]\<rparr>)"
  by (simp add: main_at_def bind_def find_user_oom [OF assms])

lemma main_at_other:
  "i \<noteq> 1 \<Longrightarrow> main_at i w = (Inr 0, w\<lparr>trace := trace w @ [Enter_find_user i]\<rparr>)"
  by (simp add: main_at_def bind_def find_user_other main_body_null)

lemma main_faults: "fst (main w) = Inl Null_dereference"
  by (cases "avail w = 0") (simp_all add: main_def main_at_oom main_at_one)

subsection \<open>The process\<close>

lemma ready_frame [simp]:
  "ready (w\<lparr>heap := h, brk := k, avail := a, trace := t\<rparr>) out = ready w out"
  by (simp add: ready_def Let_def split: buffering.split)

lemma ready_same:
  assumes "mode w = mode w'" and "capacity w = capacity w'" and "buffer w = buffer w'"
  shows "ready w out = ready w' out"
  using assms by (simp add: ready_def Let_def split: buffering.split)

lemma found_line_length: "length (''Found user: Alice'' @ [newline]) = 18"
  by simp

lemma found_line_last:
  "''Found user: Alice'' @ [newline] \<noteq> []" "last (''Found user: Alice'' @ [newline]) = newline"
  by simp_all

lemma found_line_lines: "lines_of (''Found user: Alice'' @ [newline]) = [''Found user: Alice'']"
  by (simp add: newline_def)

lemma run_main_found:
  assumes "0 < avail w"
  shows "run_main w =
           (Inl Null_dereference,
            stdout w @ take (ready w (''Found user: Alice'' @ [newline]))
                         (buffer w @ ''Found user: Alice'' @ [newline]))"
  by (simp add: run_main_def terminate_def main_def main_at_one [OF assms] stdout_emit)

lemma run_main_oom:
  assumes "avail w = 0"
  shows "run_main w = (Inl Null_dereference, stdout w)"
  by (simp add: run_main_def terminate_def main_def main_at_oom [OF assms])

lemma run_main_faults: "fst (run_main w) = Inl Null_dereference"
  by (cases "avail w = 0") (simp_all add: run_main_oom run_main_found)

lemma written_main_found:
  assumes "0 < avail w"
  shows "written w (snd (main w)) = ''Found user: Alice'' @ [newline]"
  by (simp add: main_def main_at_one [OF assms] written_def printed_emit)
    (simp add: printed_def)

lemma written_main_oom:
  assumes "avail w = 0"
  shows "written w (snd (main w)) = []"
  by (simp add: main_def main_at_oom [OF assms] written_def)

lemma boot_fields [simp]:
  "avail (boot b c m u) = m" "mode (boot b c m u) = b" "capacity (boot b c m u) = c"
  "buffer (boot b c m u) = []" "stdout (boot b c m u) = []" "heap (boot b c m u) = (\<lambda>_. None)"
  "brk (boot b c m u) = 0" "uninit (boot b c m u) = u" "trace (boot b c m u) = []"
  by (simp_all add: boot_def)

lemma delivered_direct:
  assumes "0 < m" and "b \<noteq> Fully_buffered"
  shows "run_main (boot b c m u) = (Inl Null_dereference, ''Found user: Alice'' @ [newline])"
proof -
  let ?w = "boot b c m u"
  let ?line = "''Found user: Alice'' @ [newline]"
  have "ready ?w ?line = length (buffer ?w) + length ?line"
    using assms(2) found_line_last by (intro ready_newline_last) simp_all
  then have "ready ?w ?line = length ?line"
    by (simp only: boot_fields list.size add_0)
  moreover have "run_main ?w = (Inl Null_dereference, stdout ?w @ take (ready ?w ?line) (buffer ?w @ ?line))"
    using assms(1) by (intro run_main_found) simp
  ultimately show ?thesis
    by (simp only: boot_fields append_Nil take_all order_refl)
qed

lemma delivered_buffered:
  assumes "0 < m"
  shows "run_main (boot Fully_buffered c m u) =
           (Inl Null_dereference, if 18 < c then [] else ''Found user: Alice'' @ [newline])"
proof -
  let ?w = "boot Fully_buffered c m u"
  let ?line = "''Found user: Alice'' @ [newline]"
  have "ready ?w ?line =
      (if capacity ?w \<le> length (buffer ?w) + length ?line
       then length (buffer ?w) + length ?line else 0)"
    by (intro ready_full) simp
  then have r: "ready ?w ?line = (if c \<le> 18 then length ?line else 0)"
    by (simp only: boot_fields list.size add_0 found_line_length)
  have "run_main ?w = (Inl Null_dereference, stdout ?w @ take (ready ?w ?line) (buffer ?w @ ?line))"
    using assms(1) by (intro run_main_found) simp
  then have "run_main ?w = (Inl Null_dereference, take (if c \<le> 18 then length ?line else 0) ?line)"
    by (simp only: boot_fields append_Nil r)
  then show ?thesis
    by (cases "c \<le> 18") simp_all
qed

section \<open>The lookup\<close>

text \<open>
  C1, as the code has it. For the identifier 1, when the allocation succeeds, \<open>find_user\<close>
  returns a pointer to a \<open>User\<close> object whose name is "Alice" and whose manager is
  \<open>NULL\<close>, whatever the fresh memory held.
\<close>

theorem C1_find_user_alice:
  assumes "0 < avail w"
  shows "fst (find_user 1 w) = Inr (Ptr (brk w)) \<and>
         heap (snd (find_user 1 w)) (brk w) =
           Some \<lparr>id_field = 1, name = ''Alice'', manager = NULL\<rparr> \<and>
         deref (Ptr (brk w)) (snd (find_user 1 w)) =
           (Inr \<lparr>id_field = 1, name = ''Alice'', manager = NULL\<rparr>, snd (find_user 1 w))"
  by (simp add: find_user_one [OF assms] deref_def)

theorem C1_find_user_alice_witness:
  "0 < avail start \<and>
   fst (find_user 1 start) = Inr (Ptr 0) \<and>
   heap (snd (find_user 1 start)) 0 = Some \<lparr>id_field = 1, name = ''Alice'', manager = NULL\<rparr>"
proof -
  have a: "0 < avail start" by (simp add: start_def)
  have b: "brk start = 0" by (simp add: start_def)
  from C1_find_user_alice [OF a] a b show ?thesis by simp
qed

text \<open>
  C1, as stated, fails in the state with no memory left: \<open>malloc\<close> returns \<open>NULL\<close>, the
  store \<open>user->id = 1\<close> goes through it, and the lookup ends in the fault with no record
  returned.
\<close>

theorem C1_no_memory_counterexample:
  "fst (find_user 1 exhausted) = Inl Null_dereference \<and> \<not> returns_record (find_user 1 exhausted)"
proof -
  have "avail exhausted = 0" by (simp add: exhausted_def)
  then show ?thesis by (simp add: find_user_oom returns_record_def)
qed

text \<open>
  C4, as the code has it. \<open>find_user\<close> returns a pointer to an object only for the
  identifier 1, and for every other identifier it returns \<open>NULL\<close>, an ordinary result.
  When the allocation succeeds, it returns a pointer to an object exactly for the
  identifier 1, \<open>NULL\<close> exactly for the others, and does not fault.
\<close>

theorem C4_find_user_iff:
  "(returns_record (find_user i w) \<longrightarrow> i = 1) \<and>
   (i \<noteq> 1 \<longrightarrow> fst (find_user i w) = Inr NULL) \<and>
   (0 < avail w \<longrightarrow>
      returns_record (find_user i w) = (i = 1) \<and>
      (fst (find_user i w) = Inr NULL) = (i \<noteq> 1) \<and>
      \<not> isl (fst (find_user i w)))"
proof (cases "i = 1")
  case True
  show ?thesis
  proof (cases "avail w = 0")
    case True
    with \<open>i = 1\<close> show ?thesis by (simp add: find_user_oom returns_record_def)
  next
    case False
    with \<open>i = 1\<close> show ?thesis by (simp add: find_user_one returns_record_def)
  qed
next
  case False
  then show ?thesis by (simp add: find_user_other returns_record_def)
qed

theorem C4_find_user_iff_witness:
  "0 < avail start \<and>
   returns_record (find_user 1 start) \<and>
   \<not> isl (fst (find_user 1 start)) \<and>
   \<not> returns_record (find_user 2 start) \<and>
   fst (find_user 2 start) = Inr NULL"
proof -
  have a: "0 < avail start" by (simp add: start_def)
  from C4_find_user_iff [of 1 start] C4_find_user_iff [of 2 start] a show ?thesis by simp
qed

text \<open>
  C4, as stated, fails for the identifier 1 in the state with no memory left: the lookup
  returns no record and ends in a fault.
\<close>

theorem C4_no_memory_counterexample:
  "\<not> returns_record (find_user 1 exhausted) \<and> isl (fst (find_user 1 exhausted))"
proof -
  have "avail exhausted = 0" by (simp add: exhausted_def)
  then show ?thesis by (simp add: find_user_oom returns_record_def)
qed

text \<open>
  C10. Whenever \<open>find_user\<close> returns a pointer to an object, the \<open>id\<close> field of that object
  is 1 and equals the identifier that was looked up.
\<close>

theorem C10_find_user_id:
  assumes "fst (find_user i w) = Inr (Ptr a)"
    and "heap (snd (find_user i w)) a = Some u"
  shows "id_field u = 1 \<and> id_field u = i"
proof (cases "i = 1")
  case True
  show ?thesis
  proof (cases "avail w = 0")
    case True
    with \<open>i = 1\<close> assms(1) show ?thesis by (simp add: find_user_oom)
  next
    case False
    with \<open>i = 1\<close> assms show ?thesis by (auto simp: find_user_one)
  qed
next
  case False
  with assms(1) show ?thesis by (simp add: find_user_other)
qed

theorem C10_find_user_id_witness:
  "fst (find_user 1 start) = Inr (Ptr 0) \<and>
   heap (snd (find_user 1 start)) 0 = Some \<lparr>id_field = 1, name = ''Alice'', manager = NULL\<rparr> \<and>
   id_field \<lparr>id_field = 1, name = ''Alice'', manager = NULL\<rparr> = (1 :: c_int)"
proof -
  have a: "0 < avail start" by (simp add: start_def)
  have r: "fst (find_user 1 start) = Inr (Ptr 0)"
    by (simp add: find_user_one [OF a]) (simp add: start_def)
  have h: "heap (snd (find_user 1 start)) 0 =
      Some \<lparr>id_field = 1, name = ''Alice'', manager = NULL\<rparr>"
    by (simp add: find_user_one [OF a]) (simp add: start_def)
  from C10_find_user_id [OF r h] r h show ?thesis by simp
qed

section \<open>The report\<close>

text \<open>
  C2. On an object whose manager is \<open>NULL\<close>, \<open>print_manager_name\<close> ends in the fault of
  a null dereference, and writes nothing.
\<close>

theorem C2_print_manager_name_faults:
  assumes "heap w a = Some u" and "manager u = NULL"
  shows "fst (print_manager_name (Ptr a) w) = Inl Null_dereference \<and>
         written w (snd (print_manager_name (Ptr a) w)) = []"
  by (simp add: print_manager_name_null [OF assms] written_def)

theorem C2_print_manager_name_faults_witness:
  "heap office 1 = Some \<lparr>id_field = 2, name = ''Bob'', manager = NULL\<rparr> \<and>
   manager \<lparr>id_field = 2, name = ''Bob'', manager = NULL\<rparr> = NULL \<and>
   fst (print_manager_name (Ptr 1) office) = Inl Null_dereference \<and>
   written office (snd (print_manager_name (Ptr 1) office)) = []"
proof -
  have h: "heap office 1 = Some \<lparr>id_field = 2, name = ''Bob'', manager = NULL\<rparr>"
    by (simp add: office_def)
  have m: "manager \<lparr>id_field = 2, name = ''Bob'', manager = NULL\<rparr> = NULL"
    by simp
  from C2_print_manager_name_faults [OF h m] h m show ?thesis by simp
qed

text \<open>
  C7. On an object whose manager is the address of an object, \<open>print_manager_name\<close>
  returns normally and writes the line "Manager: " followed by that manager's name.
\<close>

theorem C7_print_manager_name_prints:
  assumes "heap w a = Some u" and "manager u = Ptr b" and "heap w b = Some m"
  shows "fst (print_manager_name (Ptr a) w) = Inr () \<and>
         written w (snd (print_manager_name (Ptr a) w)) = ''Manager: '' @ name m @ [newline]"
  by (simp add: print_manager_name_some [OF assms] written_def printed_emit)

theorem C7_print_manager_name_prints_witness:
  "heap office 0 = Some \<lparr>id_field = 1, name = ''Alice'', manager = Ptr 1\<rparr> \<and>
   heap office 1 = Some \<lparr>id_field = 2, name = ''Bob'', manager = NULL\<rparr> \<and>
   fst (print_manager_name (Ptr 0) office) = Inr () \<and>
   written office (snd (print_manager_name (Ptr 0) office)) = ''Manager: Bob'' @ [newline]"
proof -
  have h0: "heap office 0 = Some \<lparr>id_field = 1, name = ''Alice'', manager = Ptr 1\<rparr>"
    by (simp add: office_def)
  have m: "manager \<lparr>id_field = 1, name = ''Alice'', manager = Ptr 1\<rparr> = Ptr 1"
    by simp
  have h1: "heap office 1 = Some \<lparr>id_field = 2, name = ''Bob'', manager = NULL\<rparr>"
    by (simp add: office_def)
  from C7_print_manager_name_prints [OF h0 m h1] h0 h1 show ?thesis by simp
qed

section \<open>The entry point\<close>

text \<open>
  C3, as the code has it. When the allocation succeeds, a run of the program ends in the
  fault, not in an exit, after the line "Found user: Alice" was written to the stream; and
  when standard output is not fully buffered, that line is in the standard output of the
  process.
\<close>

theorem C3_main_found_then_fault:
  assumes "0 < m"
  shows "fst (run_main (boot b c m u)) = Inl Null_dereference \<and>
         (\<forall>x. fst (run_main (boot b c m u)) \<noteq> Inr x) \<and>
         ''Found user: Alice'' \<in> set (lines_of (written (boot b c m u) (snd (main (boot b c m u))))) \<and>
         (b \<noteq> Fully_buffered \<longrightarrow>
            ''Found user: Alice'' \<in> set (lines_of (snd (run_main (boot b c m u)))))"
proof -
  have a: "0 < avail (boot b c m u)" using assms by simp
  have "fst (run_main (boot b c m u)) = Inl Null_dereference"
    by (rule run_main_faults)
  moreover have "lines_of (written (boot b c m u) (snd (main (boot b c m u)))) = [''Found user: Alice'']"
    by (simp only: written_main_found [OF a] found_line_lines)
  moreover have "lines_of (snd (run_main (boot b c m u))) = [''Found user: Alice'']"
    if "b \<noteq> Fully_buffered"
    by (simp only: delivered_direct [OF assms that] snd_conv found_line_lines)
  ultimately show ?thesis by simp
qed

theorem C3_main_found_then_fault_witness:
  "(0 :: nat) < 16 \<and>
   Line_buffered \<noteq> Fully_buffered \<and>
   fst (run_main start) = Inl Null_dereference \<and>
   ''Found user: Alice'' \<in> set (lines_of (written start (snd (main start)))) \<and>
   ''Found user: Alice'' \<in> set (lines_of (snd (run_main start)))"
proof -
  have m: "(0 :: nat) < 16" by simp
  from C3_main_found_then_fault [OF m, of Line_buffered 1024 "\<lambda>_. junk"]
  show ?thesis by (simp add: start_def)
qed

text \<open>
  C3, as stated, fails in two runs. With standard output a pipe the line is still in the
  buffer when the fault kills the process, and standard output receives nothing. With no
  memory left the run faults inside the lookup, before anything is printed.
\<close>

theorem C3_lost_line_counterexample:
  "fst (run_main piped) = Inl Null_dereference \<and>
   snd (run_main piped) = [] \<and>
   ''Found user: Alice'' \<notin> set (lines_of (snd (run_main piped))) \<and>
   ''Found user: Alice'' \<notin> set (lines_of (snd (run_main exhausted)))"
proof -
  have "run_main piped = (Inl Null_dereference, [])"
    unfolding piped_def by (simp add: delivered_buffered)
  moreover have "run_main exhausted = (Inl Null_dereference, [])"
    by (simp add: run_main_oom exhausted_def)
  ultimately show ?thesis by simp
qed

text \<open>
  C5. When the lookup of the entry point yields \<open>NULL\<close>, which it does for every identifier
  other than 1, the run writes nothing, so no "Found user" line, and exits with status 0:
  at the exit standard output has what was printed before the run and no more.
\<close>

theorem C5_main_not_found:
  assumes "i \<noteq> 1"
  shows "fst (find_user i w) = Inr NULL \<and>
         fst (main_at i w) = Inr 0 \<and>
         written w (snd (main_at i w)) = [] \<and>
         main_body NULL w = (Inr 0, w) \<and>
         terminate (main_at i w) = (Inr 0, printed w)"
  using assms
  by (simp add: find_user_other main_at_other main_body_null written_def terminate_def)
    (simp add: printed_def)

theorem C5_main_not_found_witness:
  "(2 :: c_int) \<noteq> 1 \<and>
   fst (find_user 2 start) = Inr NULL \<and>
   fst (main_at 2 start) = Inr 0 \<and>
   written start (snd (main_at 2 start)) = []"
proof -
  have n: "(2 :: c_int) \<noteq> 1" by simp
  from C5_main_not_found [OF n, of start] n show ?thesis by simp
qed

text \<open>
  C6, as the code has it. The program does not write two lines before the fault. The fatal
  read happens while the argument of the second \<open>printf\<close> is evaluated, so the "Manager:"
  line is never written: what the run writes to the stream, and what standard output
  receives, is nothing or the one line "Found user: Alice", in every run.
\<close>

theorem C6_main_at_most_one_line:
  "fst (run_main (boot b c m u)) = Inl Null_dereference \<and>
   (written w (snd (main w)) = [] \<or>
    written w (snd (main w)) = ''Found user: Alice'' @ [newline]) \<and>
   (snd (run_main (boot b c m u)) = [] \<or>
    snd (run_main (boot b c m u)) = ''Found user: Alice'' @ [newline]) \<and>
   length (lines_of (written w (snd (main w)))) \<le> 1 \<and>
   length (lines_of (snd (run_main (boot b c m u)))) \<le> 1"
proof -
  have f: "fst (run_main (boot b c m u)) = Inl Null_dereference"
    by (rule run_main_faults)
  have p: "written w (snd (main w)) = [] \<or>
      written w (snd (main w)) = ''Found user: Alice'' @ [newline]"
    by (cases "avail w = 0") (simp_all only: written_main_oom written_main_found simp_thms)
  have d: "snd (run_main (boot b c m u)) = [] \<or>
      snd (run_main (boot b c m u)) = ''Found user: Alice'' @ [newline]"
  proof (cases "m = 0")
    case True
    then show ?thesis by (simp add: run_main_oom)
  next
    case False
    then have m: "0 < m" by simp
    show ?thesis
    proof (cases "b = Fully_buffered")
      case True
      then show ?thesis by (simp only: delivered_buffered [OF m] snd_conv) simp
    next
      case False
      then show ?thesis by (simp only: delivered_direct [OF m False] snd_conv simp_thms)
    qed
  qed
  have one: "length (lines_of s) \<le> 1"
    if "s = [] \<or> s = ''Found user: Alice'' @ [newline]" for s
  proof -
    from that consider "s = []" | "s = ''Found user: Alice'' @ [newline]" by blast
    then show ?thesis
    proof cases
      case 1
      then show ?thesis by simp
    next
      case 2
      then show ?thesis by (simp only: found_line_lines) simp
    qed
  qed
  from f p d one [OF p] one [OF d] show ?thesis by (simp only: simp_thms)
qed

text \<open>
  C6, as stated, fails on the run on a terminal, where nothing is lost: it ends in the
  fault with one line written to the stream and received by standard output, not two.
\<close>

theorem C6_two_lines_counterexample:
  "fst (run_main start) = Inl Null_dereference \<and>
   lines_of (snd (run_main start)) = [''Found user: Alice''] \<and>
   length (lines_of (snd (run_main start))) \<noteq> 2 \<and>
   length (lines_of (written start (snd (main start)))) \<noteq> 2"
proof -
  have m: "(0 :: nat) < 16" by simp
  have n: "Line_buffered \<noteq> Fully_buffered" by simp
  have "run_main start = (Inl Null_dereference, ''Found user: Alice'' @ [newline])"
    unfolding start_def by (rule delivered_direct [OF m n])
  moreover have "written start (snd (main start)) = ''Found user: Alice'' @ [newline]"
    by (rule written_main_found) (simp add: start_def)
  ultimately show ?thesis by (simp add: newline_def)
qed

text \<open>
  C8. The entry point enters the reporting function once when the lookup returned a
  record and not at all otherwise, in particular not when it returned \<open>NULL\<close>. The run
  ends in the fault with the reporting function entered exactly when the lookup returned a
  record, and it exits with status 0 exactly when the lookup returned \<open>NULL\<close>.
\<close>

theorem C8_report_only_when_found:
  "reporting_calls (trace (snd (main_at i w))) =
     reporting_calls (trace w) + (if returns_record (find_user i w) then 1 else 0) \<and>
   (fst (main_at i w) = Inl Null_dereference \<and>
    reporting_calls (trace (snd (main_at i w))) = Suc (reporting_calls (trace w))) =
     returns_record (find_user i w) \<and>
   (fst (main_at i w) = Inr 0) = (fst (find_user i w) = Inr NULL)"
proof (cases "i = 1")
  case True
  show ?thesis
  proof (cases "avail w = 0")
    case True
    with \<open>i = 1\<close> show ?thesis
      by (simp add: main_at_oom find_user_oom reporting_calls_def returns_record_def)
  next
    case False
    with \<open>i = 1\<close> show ?thesis
      by (simp add: main_at_one find_user_one reporting_calls_def returns_record_def)
  qed
next
  case False
  then show ?thesis
    by (simp add: main_at_other find_user_other reporting_calls_def returns_record_def)
qed

text \<open>
  C9, as the code has it. \<open>main\<close> has no parameter but the state of the process. Any two
  runs end the same way. Any two runs in which the allocation succeeds and whose standard
  output is buffered the same way give standard output the same characters, whatever the
  heap, the allocator and the contents of fresh memory are at their start.
\<close>

theorem C9_main_deterministic:
  "fst (run_main w) = fst (run_main w') \<and>
   (mode w = mode w' \<and> capacity w = capacity w' \<and> buffer w = buffer w' \<and>
    stdout w = stdout w' \<and> 0 < avail w \<and> 0 < avail w' \<longrightarrow>
      snd (run_main w) = snd (run_main w'))"
proof -
  have f: "fst (run_main v) = Inl Null_dereference" for v
    by (rule run_main_faults)
  have "snd (run_main w) = snd (run_main w')"
    if "mode w = mode w'" "capacity w = capacity w'" "buffer w = buffer w'"
      "stdout w = stdout w'" "0 < avail w" "0 < avail w'"
    using that ready_same [OF that(1,2,3)]
    by (simp only: run_main_found snd_conv)
  with f [of w] f [of w'] show ?thesis by simp
qed

theorem C9_main_deterministic_witness:
  "fst (run_main start) = fst (run_main piped) \<and>
   0 < avail (boot Unbuffered 512 3 (\<lambda>_. \<lparr>id_field = 0, name = [], manager = NULL\<rparr>)) \<and>
   0 < avail (boot Unbuffered 512 16 (\<lambda>_. junk)) \<and>
   snd (run_main (boot Unbuffered 512 3 (\<lambda>_. \<lparr>id_field = 0, name = [], manager = NULL\<rparr>))) =
     snd (run_main (boot Unbuffered 512 16 (\<lambda>_. junk)))"
proof -
  from C9_main_deterministic [of start piped]
    C9_main_deterministic
      [of "boot Unbuffered 512 3 (\<lambda>_. \<lparr>id_field = 0, name = [], manager = NULL\<rparr>)"
          "boot Unbuffered 512 16 (\<lambda>_. junk)"]
  show ?thesis by simp
qed

text \<open>
  C9, as stated, fails on two runs of the program that differ only in what standard output
  is: on a terminal it receives the line "Found user: Alice", on a pipe it receives
  nothing.
\<close>

theorem C9_terminal_pipe_counterexample:
  "snd (run_main start) \<noteq> snd (run_main piped) \<and>
   snd (run_main start) = ''Found user: Alice'' @ [newline] \<and>
   snd (run_main piped) = []"
proof -
  have m: "(0 :: nat) < 16" by simp
  have n: "Line_buffered \<noteq> Fully_buffered" by simp
  have "run_main start = (Inl Null_dereference, ''Found user: Alice'' @ [newline])"
    unfolding start_def by (rule delivered_direct [OF m n])
  moreover have "run_main piped = (Inl Null_dereference, [])"
    unfolding piped_def by (simp add: delivered_buffered)
  ultimately show ?thesis by simp
qed

end
